theory Spec2Isabelle
  imports Main
begin

section \<open>GitHub repository synchronization: the service and the panel that observes it\<close>

text \<open>
  The development embeds two pieces of the repository:
  \<^item> the class \<open>GitHubSyncService\<close> (WebSocket channel with reconnection, polling channel,
    manual sync, listener registry);
  \<^item> the event handlers that the component \<open>GitHubSyncPanel\<close> registers with the service
    (\<open>handleRepoUpdate\<close>, \<open>handleSyncError\<close>, \<open>handleConnectionStatus\<close>).

  JavaScript numbers are modelled as \<open>int\<close>: every number the code computes with is a
  counter, a millisecond count or a product of two of them, exact in a double below
  \<open>2^53\<close>; where a theorem depends on the value of a product, it assumes that range. A clock reading (\<open>new Date()\<close>) is the millisecond count it holds; the
  ISO string the code stores is a rendering of that count and is never compared.
  Timer handles and callbacks are identifiers: the code only tests a handle for being
  set and compares callbacks by reference.
\<close>

subsection \<open>Data carried by the service\<close>

type_synonym timestamp = int
type_synonym callback = nat
type_synonym handle = nat

record config =
  baseApiUrl :: string
  pollingInterval :: int
  useWebhooks :: bool
  usePolling :: bool
  maxRetries :: int
  retryDelay :: int

text \<open>The \<open>options\<close> argument of \<open>startSync\<close>: an object in which any key may be absent.\<close>

record sync_options =
  opt_baseApiUrl :: "string option"
  opt_pollingInterval :: "int option"
  opt_useWebhooks :: "bool option"
  opt_usePolling :: "bool option"
  opt_maxRetries :: "int option"
  opt_retryDelay :: "int option"

datatype source = Webhook | Polling | Manual

record changes =
  added :: int
  modified :: int
  deleted :: int

text \<open>
  The payload of a \<open>repo-updated\<close> notification. The four call sites build objects with
  different keys; a key that a call site does not set is \<open>None\<close>.
\<close>

record repo_update =
  repository :: string
  source :: source
  branch :: "string option"
  commits :: "string list option"
  pullRequest :: "string option"
  action :: "string option"
  ev_lastUpdate :: "timestamp option"
  ev_changes :: "changes option"

datatype conn_state = Connecting | Connected | Disconnected | Error

text \<open>The payloads of \<open>sync-error\<close> and \<open>connection-status\<close>.\<close>

record error_data =
  error :: string
  details :: "string option"
  fallback :: "string option"

record status_data =
  status :: conn_state
  "method" :: "source option"

datatype notification =
    RepoUpdated repo_update
  | SyncError error_data
  | ConnectionStatus status_data

definition syncError :: "string \<Rightarrow> string option \<Rightarrow> string option \<Rightarrow> notification" where
  "syncError e d f = SyncError \<lparr> error = e, details = d, fallback = f \<rparr>"

definition connectionStatus :: "conn_state \<Rightarrow> source option \<Rightarrow> notification" where
  "connectionStatus st m = ConnectionStatus \<lparr> status = st, method = m \<rparr>"

text \<open>The three arrays of \<open>this.listeners\<close>, the only own keys the object ever has.\<close>

record listeners =
  repo_updated :: "callback list"
  sync_error :: "callback list"
  connection_status :: "callback list"

datatype js_error = TypeError string | RequestError string

text \<open>
  The service together with the part of the browser it acts on. The first six fields are
  the fields of the object. The others record its effects:
  \<^item> \<open>sockets\<close>: every \<open>new WebSocket\<close> that succeeded, oldest first; a socket is named by
    its position;
  \<^item> \<open>closeCalls\<close>: every \<open>socket.close(code)\<close>;
  \<^item> \<open>timeouts\<close>: every \<open>setTimeout\<close> of a reconnection, with its delay; \<open>fired\<close>: those
    that have run. The code keeps no handle of them and never calls \<open>clearTimeout\<close>;
  \<^item> \<open>intervals\<close>: the \<open>setInterval\<close> timers not yet cleared, with their period;
  \<^item> \<open>getRequests\<close>: how many status requests \<open>pollRepositories\<close> has issued;
  \<^item> \<open>notified\<close>: every \<open>notifyListeners\<close> call, with the callbacks it invoked, in order;
  \<^item> \<open>nextHandle\<close>: the next timer handle of the browser (handles are positive).
\<close>

record service =
  config :: config
  isConnected :: bool
  socket :: "nat option"
  pollingTimeout :: "handle option"
  retryCount :: int
  listeners :: listeners
  sockets :: "nat list"
  closeCalls :: "(nat \<times> int) list"
  timeouts :: "(handle \<times> int) list"
  fired :: "handle list"
  intervals :: "(handle \<times> int) list"
  getRequests :: nat
  notified :: "(notification \<times> callback list) list"
  nextHandle :: handle

definition defaultConfig :: config where
  "defaultConfig = \<lparr> baseApiUrl = ''/api'', pollingInterval = 60000, useWebhooks = True,
     usePolling = True, maxRetries = 3, retryDelay = 5000 \<rparr>"

text \<open>The state the constructor leaves.\<close>

definition newService :: service where
  "newService = \<lparr> config = defaultConfig, isConnected = False, socket = None,
     pollingTimeout = None, retryCount = 0,
     listeners = \<lparr> repo_updated = [], sync_error = [], connection_status = [] \<rparr>,
     sockets = [], closeCalls = [], timeouts = [], fired = [], intervals = [],
     getRequests = 0, notified = [], nextHandle = 1 \<rparr>"

subsection \<open>The listener registry\<close>

text \<open>
  \<open>this.listeners\<close> is an object literal, so \<open>this.listeners[event]\<close> reads an own key or,
  failing that, a property inherited from \<open>Object.prototype\<close>. The inherited properties
  are functions (and \<open>Object.prototype\<close> itself for \<open>__proto__\<close>): truthy values that have
  neither \<open>push\<close> nor \<open>filter\<close>.
\<close>

definition objectPrototypeKeys :: "string list" where
  "objectPrototypeKeys = [''constructor'', ''hasOwnProperty'', ''isPrototypeOf'',
     ''propertyIsEnumerable'', ''toLocaleString'', ''toString'', ''valueOf'', ''__proto__'',
     ''__defineGetter__'', ''__defineSetter__'', ''__lookupGetter__'', ''__lookupSetter__'']"

datatype property = Own "callback list" | Inherited | Undefined

definition getListeners :: "listeners \<Rightarrow> string \<Rightarrow> property" where
  "getListeners ls event =
     (if event = ''repo-updated'' then Own (repo_updated ls)
      else if event = ''sync-error'' then Own (sync_error ls)
      else if event = ''connection-status'' then Own (connection_status ls)
      else if event \<in> set objectPrototypeKeys then Inherited
      else Undefined)"

definition setListeners :: "listeners \<Rightarrow> string \<Rightarrow> callback list \<Rightarrow> listeners" where
  "setListeners ls event cbs =
     (if event = ''repo-updated'' then ls\<lparr>repo_updated := cbs\<rparr>
      else if event = ''sync-error'' then ls\<lparr>sync_error := cbs\<rparr>
      else if event = ''connection-status'' then ls\<lparr>connection_status := cbs\<rparr>
      else ls)"

text \<open>
  \<open>addEventListener\<close>: a truthy \<open>this.listeners[event]\<close> gets \<open>push(callback)\<close>, which is a
  \<open>TypeError\<close> on a value without \<open>push\<close>; otherwise a warning is logged.
\<close>

definition addEventListener :: "string \<Rightarrow> callback \<Rightarrow> service \<Rightarrow> js_error + service" where
  "addEventListener event cb s =
     (case getListeners (listeners s) event of
        Own cbs \<Rightarrow> Inr (s\<lparr>listeners := setListeners (listeners s) event (cbs @ [cb])\<rparr>)
      | Inherited \<Rightarrow> Inl (TypeError ''this.listeners[event].push is not a function'')
      | Undefined \<Rightarrow> Inr s)"

definition removeEventListener :: "string \<Rightarrow> callback \<Rightarrow> service \<Rightarrow> js_error + service" where
  "removeEventListener event cb s =
     (case getListeners (listeners s) event of
        Own cbs \<Rightarrow>
          Inr (s\<lparr>listeners := setListeners (listeners s) event (filter (\<lambda>c. c \<noteq> cb) cbs)\<rparr>)
      | Inherited \<Rightarrow> Inl (TypeError ''this.listeners[event].filter is not a function'')
      | Undefined \<Rightarrow> Inr s)"

text \<open>
  \<open>notifyListeners\<close>: every call site passes one of the three literal event names, for
  which the table has an own array; the name is carried by the constructor of the
  notification. Each callback runs inside \<open>try\<close>/\<open>catch\<close>, so none can stop the others; the
  callbacks themselves are observers outside the service, and the model records that
  they were called.
\<close>

fun listenersFor :: "notification \<Rightarrow> listeners \<Rightarrow> callback list" where
  "listenersFor (RepoUpdated _) ls = repo_updated ls"
| "listenersFor (SyncError _) ls = sync_error ls"
| "listenersFor (ConnectionStatus _) ls = connection_status ls"

definition notifyListeners :: "notification \<Rightarrow> service \<Rightarrow> service" where
  "notifyListeners n s = s\<lparr>notified := notified s @ [(n, listenersFor n (listeners s))]\<rparr>"

subsection \<open>The polling channel\<close>

definition stopPolling :: "service \<Rightarrow> service" where
  "stopPolling s =
     (case pollingTimeout s of
        Some h \<Rightarrow> s\<lparr>intervals := filter (\<lambda>(h', _). h' \<noteq> h) (intervals s), pollingTimeout := None\<rparr>
      | None \<Rightarrow> s)"

text \<open>
  \<open>pollRepositories\<close> is asynchronous. Up to its \<open>await\<close> it issues the status request;
  \<open>pollRepositoriesResume\<close> below is the rest, run when the request settles.
\<close>

definition pollRepositories :: "service \<Rightarrow> service" where
  "pollRepositories s = s\<lparr>getRequests := Suc (getRequests s)\<rparr>"

definition startPolling :: "service \<Rightarrow> service" where
  "startPolling s =
     (let s1 = pollRepositories (stopPolling s);
          h = nextHandle s1
      in s1\<lparr>intervals := intervals s1 @ [(h, pollingInterval (config s1))],
             pollingTimeout := Some h, nextHandle := Suc h\<rparr>)"

record repo_status =
  st_name :: string
  st_hasChanges :: bool
  st_lastUpdate :: "timestamp option"
  st_changes :: "changes option"

text \<open>
  How the status request settles: rejected with a message, or fulfilled with a body
  whose \<open>repositories\<close> key may be absent.
\<close>

datatype poll_result = GetFailed string | GetOk "repo_status list option"

definition pollUpdate :: "repo_status \<Rightarrow> repo_update" where
  "pollUpdate repo = \<lparr> repository = st_name repo, source = Polling, branch = None,
     commits = None, pullRequest = None, action = None,
     ev_lastUpdate = st_lastUpdate repo, ev_changes = st_changes repo \<rparr>"

fun notifyChanged :: "repo_status list \<Rightarrow> service \<Rightarrow> service" where
  "notifyChanged [] s = s"
| "notifyChanged (repo # repos) s =
     notifyChanged repos
       (if st_hasChanges repo then notifyListeners (RepoUpdated (pollUpdate repo)) s else s)"

definition pollRepositoriesResume :: "poll_result \<Rightarrow> service \<Rightarrow> service" where
  "pollRepositoriesResume res s =
     (case res of
        GetOk body \<Rightarrow>
          (let s1 = (case body of Some repos \<Rightarrow> notifyChanged repos s | None \<Rightarrow> s)
           in if \<not> isConnected s1
              then notifyListeners (connectionStatus Connected (Some Polling))
                     (s1\<lparr>isConnected := True\<rparr>)
              else s1)
      | GetFailed msg \<Rightarrow>
          (let s1 = notifyListeners (syncError ''Repository polling failed'' (Some msg) None) s
           in if isConnected s1
              then notifyListeners (connectionStatus Error None) (s1\<lparr>isConnected := False\<rparr>)
              else s1))"

subsection \<open>The WebSocket channel and its reconnection\<close>

definition disconnectWebSocket :: "service \<Rightarrow> service" where
  "disconnectWebSocket s =
     (case socket s of
        Some k \<Rightarrow> s\<lparr>closeCalls := closeCalls s @ [(k, 1000)], socket := None\<rparr>
      | None \<Rightarrow> s)"

text \<open>
  \<open>connectWebSocket\<close>; \<open>thrown\<close> is \<open>None\<close> when \<open>new WebSocket\<close> returns and the message
  of its exception when it throws. The \<open>catch\<close> block reports and falls back to polling.
\<close>

definition connectWebSocket :: "string option \<Rightarrow> service \<Rightarrow> service" where
  "connectWebSocket thrown s =
     (let s1 = (if socket s \<noteq> None then disconnectWebSocket s else s)
      in case thrown of
           None \<Rightarrow> s1\<lparr>socket := Some (length (sockets s1)),
                        sockets := sockets s1 @ [length (sockets s1)]\<rparr>
         | Some msg \<Rightarrow>
             (let s2 = notifyListeners
                         (syncError ''Failed to establish WebSocket connection'' (Some msg) None) s1
              in if usePolling (config s2) \<and> pollingTimeout s2 = None
                 then startPolling s2 else s2))"

text \<open>
  The handlers that \<open>connectWebSocket\<close> installs on a socket. They close over the
  service, not over the socket: an event of any socket the service has created runs
  them on the current state.
\<close>

definition onopen :: "service \<Rightarrow> service" where
  "onopen s = notifyListeners (connectionStatus Connected (Some Webhook))
                (s\<lparr>isConnected := True, retryCount := 0\<rparr>)"

definition onerror :: "string \<Rightarrow> service \<Rightarrow> service" where
  "onerror info s =
     notifyListeners (syncError ''WebSocket connection error'' (Some info) None) s"

text \<open>
  In \<open>onclose\<close> the delay \<open>this.retryCount * this.config.retryDelay\<close> is a product of
  doubles. The model takes the integer product, which is what the code computes as long
  as the factors and the product are integers below \<open>2^53\<close> in absolute value; the
  theorem on the scheduled delays assumes that range.
\<close>

definition onclose :: "int \<Rightarrow> service \<Rightarrow> service" where
  "onclose code s =
     (let s1 = notifyListeners (connectionStatus Disconnected None) (s\<lparr>isConnected := False\<rparr>)
      in if code \<noteq> 1000 then
           (if retryCount s1 < maxRetries (config s1) then
              (let s2 = s1\<lparr>retryCount := retryCount s1 + 1\<rparr>;
                   delay = retryCount s2 * retryDelay (config s2)
               in s2\<lparr>timeouts := timeouts s2 @ [(nextHandle s2, delay)],
                      nextHandle := Suc (nextHandle s2)\<rparr>)
            else
              (let s2 = notifyListeners
                          (syncError ''WebSocket connection failed after max retries'' None
                             (Some ''Switching to polling mode only'')) s1
               in if usePolling (config s2) \<and> pollingTimeout s2 = None
                  then startPolling s2 else s2))
         else s1)"

text \<open>A reconnection timer runs: \<open>() => this.connectWebSocket()\<close>, once, if it is pending.\<close>

definition pending :: "service \<Rightarrow> handle \<Rightarrow> bool" where
  "pending s h \<longleftrightarrow> h \<in> fst ` set (timeouts s) \<and> h \<notin> set (fired s)"

definition timeoutFires :: "handle \<Rightarrow> string option \<Rightarrow> service \<Rightarrow> service" where
  "timeoutFires h thrown s =
     (if pending s h then connectWebSocket thrown (s\<lparr>fired := fired s @ [h]\<rparr>) else s)"

text \<open>A tick of a \<open>setInterval\<close> timer that has not been cleared: \<open>this.pollRepositories\<close>.\<close>

definition intervalTicks :: "handle \<Rightarrow> service \<Rightarrow> service" where
  "intervalTicks h s = (if h \<in> fst ` set (intervals s) then pollRepositories s else s)"

text \<open>The messages of the socket, after \<open>JSON.parse\<close>.\<close>

datatype ws_message =
    Push string "string option" "string list option"
  | PullRequestEvent string "string option" "string option"
  | OtherGithubEvent string
  | Ping
  | UnknownType string
  | Malformed

fun handleWebSocketMessage :: "ws_message \<Rightarrow> service \<Rightarrow> service" where
  "handleWebSocketMessage (Push repo br cs) s =
     notifyListeners (RepoUpdated \<lparr> repository = repo, source = Webhook, branch = br,
        commits = cs, pullRequest = None, action = None, ev_lastUpdate = None,
        ev_changes = None \<rparr>) s"
| "handleWebSocketMessage (PullRequestEvent repo pr act) s =
     notifyListeners (RepoUpdated \<lparr> repository = repo, source = Webhook, branch = None,
        commits = None, pullRequest = pr, action = act, ev_lastUpdate = None,
        ev_changes = None \<rparr>) s"
| "handleWebSocketMessage _ s = s"

subsection \<open>Starting, stopping, manual sync\<close>

definition mergeConfig :: "config \<Rightarrow> sync_options \<Rightarrow> config" where
  "mergeConfig c opts = \<lparr>
     baseApiUrl = (case opt_baseApiUrl opts of Some v \<Rightarrow> v | None \<Rightarrow> baseApiUrl c),
     pollingInterval = (case opt_pollingInterval opts of Some v \<Rightarrow> v | None \<Rightarrow> pollingInterval c),
     useWebhooks = (case opt_useWebhooks opts of Some v \<Rightarrow> v | None \<Rightarrow> useWebhooks c),
     usePolling = (case opt_usePolling opts of Some v \<Rightarrow> v | None \<Rightarrow> usePolling c),
     maxRetries = (case opt_maxRetries opts of Some v \<Rightarrow> v | None \<Rightarrow> maxRetries c),
     retryDelay = (case opt_retryDelay opts of Some v \<Rightarrow> v | None \<Rightarrow> retryDelay c) \<rparr>"

definition startSync :: "sync_options \<Rightarrow> string option \<Rightarrow> service \<Rightarrow> service" where
  "startSync opts thrown s =
     (let s1 = notifyListeners (connectionStatus Connecting None)
                 (s\<lparr>config := mergeConfig (config s) opts\<rparr>);
          s2 = (if useWebhooks (config s1) then connectWebSocket thrown s1 else s1)
      in if usePolling (config s2) then startPolling s2 else s2)"

definition stopSync :: "service \<Rightarrow> service" where
  "stopSync s =
     notifyListeners (connectionStatus Disconnected None)
       ((stopPolling (disconnectWebSocket s))\<lparr>isConnected := False\<rparr>)"

text \<open>
  How the sync request settles: rejected with a message, or fulfilled with a body whose
  \<open>changes\<close> key may be absent. \<open>syncRepositoryResume\<close> is \<open>syncRepository\<close> from its
  \<open>await\<close> on; \<open>Inl\<close> is the exception it throws to its caller, \<open>Inr\<close> the body it returns.
\<close>

datatype post_result = PostFailed string | PostOk "changes option"

definition manualUpdate :: "string \<Rightarrow> changes option \<Rightarrow> repo_update" where
  "manualUpdate repoName ch = \<lparr> repository = repoName, source = Manual, branch = None,
     commits = None, pullRequest = None, action = None, ev_lastUpdate = None,
     ev_changes = ch \<rparr>"

definition syncRepositoryResume ::
  "string \<Rightarrow> post_result \<Rightarrow> service \<Rightarrow> (js_error + changes option) \<times> service" where
  "syncRepositoryResume repoName res s =
     (case res of
        PostOk ch \<Rightarrow> (Inr ch, notifyListeners (RepoUpdated (manualUpdate repoName ch)) s)
      | PostFailed msg \<Rightarrow>
          (Inl (RequestError msg),
           notifyListeners
             (syncError (''Failed to sync repository '' @ repoName) (Some msg) None) s))"

subsection \<open>Runs of the service\<close>

text \<open>
  Everything that can happen to the service: the events of the browser (socket events,
  timers, requests settling) and the calls of its users. A call that throws leaves the
  service as it was.
\<close>

datatype event =
    EvOpen
  | EvError string
  | EvClose int
  | EvMessage ws_message
  | EvTimeout handle "string option"
  | EvTick handle
  | EvPollSettled poll_result
  | EvSyncSettled string post_result
  | CallStartSync sync_options "string option"
  | CallStopSync
  | CallAddListener string callback
  | CallRemoveListener string callback

fun step :: "event \<Rightarrow> service \<Rightarrow> service" where
  "step EvOpen s = onopen s"
| "step (EvError info) s = onerror info s"
| "step (EvClose code) s = onclose code s"
| "step (EvMessage m) s = handleWebSocketMessage m s"
| "step (EvTimeout h thrown) s = timeoutFires h thrown s"
| "step (EvTick h) s = intervalTicks h s"
| "step (EvPollSettled res) s = pollRepositoriesResume res s"
| "step (EvSyncSettled repoName res) s = snd (syncRepositoryResume repoName res s)"
| "step (CallStartSync opts thrown) s = startSync opts thrown s"
| "step CallStopSync s = stopSync s"
| "step (CallAddListener ev cb) s =
     (case addEventListener ev cb s of Inr s' \<Rightarrow> s' | Inl _ \<Rightarrow> s)"
| "step (CallRemoveListener ev cb) s =
     (case removeEventListener ev cb s of Inr s' \<Rightarrow> s' | Inl _ \<Rightarrow> s)"

fun run :: "event list \<Rightarrow> service \<Rightarrow> service" where
  "run [] s = s"
| "run (e # es) s = run es (step e s)"

text \<open>The polling timer the service holds is one the browser still runs.\<close>

definition pollingActive :: "service \<Rightarrow> bool" where
  "pollingActive s \<longleftrightarrow> (\<exists>h. pollingTimeout s = Some h \<and> h \<in> fst ` set (intervals s))"

definition timerRegistered :: "service \<Rightarrow> bool" where
  "timerRegistered s \<longleftrightarrow> (pollingTimeout s = None \<or> pollingActive s)"

text \<open>A socket closing for any reason but the intentional one.\<close>

fun isFailure :: "event \<Rightarrow> bool" where
  "isFailure (EvClose code) = (code \<noteq> 1000)"
| "isFailure _ = False"

text \<open>The events that leave the configuration and the retry counter to the reconnection
  logic: everything but a successful open and a restart.\<close>

fun keepsRetrying :: "event \<Rightarrow> bool" where
  "keepsRetrying EvOpen = False"
| "keepsRetrying (CallStartSync _ _) = False"
| "keepsRetrying _ = True"

section \<open>The panel\<close>

text \<open>
  The state of \<open>GitHubSyncPanel\<close> that its three handlers update. A repository of the list
  may come from the backend (\<open>fetchRepositories\<close>), so a key may be missing; the record
  update of an entry keeps every other key, as the spread \<open>...updatedRepos[i]\<close> does.
\<close>

record repo =
  name :: string
  lastUpdate :: "timestamp option"
  hasChanges :: bool
  lastEvent :: "repo_update option"

text \<open>The two shapes of a history entry: one built by \<open>handleRepoUpdate\<close>, one by
  \<open>handleSyncError\<close> (\<open>error: true\<close>).\<close>

datatype history_entry =
    UpdateEntry timestamp string source repo_update
      \<comment> \<open>\<open>timestamp\<close>, \<open>repository\<close>, \<open>source\<close>, \<open>details\<close>\<close>
  | ErrorEntry timestamp error_data
      \<comment> \<open>\<open>timestamp\<close>, \<open>details\<close>\<close>

record panel =
  repositories :: "repo list"
  syncStatus :: status_data
  error_state :: "string option"
  syncHistory :: "history_entry list"

definition newPanel :: panel where
  "newPanel = \<lparr> repositories = [], syncStatus = \<lparr> status = Disconnected, method = None \<rparr>,
     error_state = None, syncHistory = [] \<rparr>"

text \<open>\<open>Array.prototype.findIndex\<close>; \<open>None\<close> is the result \<open>-1\<close>.\<close>

fun findIndex :: "('a \<Rightarrow> bool) \<Rightarrow> 'a list \<Rightarrow> nat option" where
  "findIndex P [] = None"
| "findIndex P (x # xs) =
     (if P x then Some 0 else (case findIndex P xs of Some i \<Rightarrow> Some (Suc i) | None \<Rightarrow> None))"

text \<open>
  \<open>handleRepoUpdate\<close>. It reads the clock twice, once in each state updater: \<open>tRepo\<close> for
  the repository entry, \<open>tHist\<close> for the history entry. Nothing in it reads a timestamp
  of the event.
\<close>

definition updateRepositories :: "timestamp \<Rightarrow> repo_update \<Rightarrow> repo list \<Rightarrow> repo list" where
  "updateRepositories tRepo data prevRepos =
     (case findIndex (\<lambda>r. name r = repository data) prevRepos of
        Some i \<Rightarrow>
          prevRepos[i := (prevRepos ! i)\<lparr>lastUpdate := Some tRepo, hasChanges := True,
                                          lastEvent := Some data\<rparr>]
      | None \<Rightarrow>
          prevRepos @ [\<lparr> name = repository data, lastUpdate = Some tRepo, hasChanges = True,
                         lastEvent = Some data \<rparr>])"

definition handleRepoUpdate :: "timestamp \<Rightarrow> timestamp \<Rightarrow> repo_update \<Rightarrow> panel \<Rightarrow> panel" where
  "handleRepoUpdate tRepo tHist data p =
     p\<lparr>repositories := updateRepositories tRepo data (repositories p),
       syncHistory := UpdateEntry tHist (repository data) (source data) data
                        # take 19 (syncHistory p),
       error_state := None\<rparr>"

definition handleConnectionStatus :: "status_data \<Rightarrow> panel \<Rightarrow> panel" where
  "handleConnectionStatus data p =
     (let p1 = p\<lparr>syncStatus := data\<rparr>
      in if status data = Error
         then p1\<lparr>error_state := Some ''Connection error. Check network or server status.''\<rparr>
         else if status data = Connected then p1\<lparr>error_state := None\<rparr>
         else p1)"

definition handleSyncError :: "timestamp \<Rightarrow> error_data \<Rightarrow> panel \<Rightarrow> panel" where
  "handleSyncError t data p =
     p\<lparr>error_state := Some (error data),
       syncHistory := ErrorEntry t data # take 19 (syncHistory p)\<rparr>"

text \<open>What reaches the panel: the three notifications, each with the clock readings its
  handler takes.\<close>

datatype panel_event =
    RepoUpdate timestamp timestamp repo_update
  | SyncFailure timestamp error_data
  | StatusChange status_data

fun handle :: "panel_event \<Rightarrow> panel \<Rightarrow> panel" where
  "handle (RepoUpdate tRepo tHist data) p = handleRepoUpdate tRepo tHist data p"
| "handle (SyncFailure t data) p = handleSyncError t data p"
| "handle (StatusChange data) p = handleConnectionStatus data p"

fun handleAll :: "panel_event list \<Rightarrow> panel \<Rightarrow> panel" where
  "handleAll [] p = p"
| "handleAll (e # es) p = handleAll es (handle e p)"

text \<open>The history entries an event adds: none for a status change.\<close>

fun entryOf :: "panel_event \<Rightarrow> history_entry list" where
  "entryOf (RepoUpdate tRepo tHist data) = [UpdateEntry tHist (repository data) (source data) data]"
| "entryOf (SyncFailure t data) = [ErrorEntry t data]"
| "entryOf (StatusChange data) = []"

text \<open>The entry the panel shows for a repository name: the first of that name, the one
  \<open>findIndex\<close> selects.\<close>

definition repoNamed :: "string \<Rightarrow> repo list \<Rightarrow> repo option" where
  "repoNamed n repos = find (\<lambda>r. name r = n) repos"

definition storedLastUpdate :: "string \<Rightarrow> panel \<Rightarrow> timestamp option" where
  "storedLastUpdate r p =
     (case repoNamed r (repositories p) of Some x \<Rightarrow> lastUpdate x | None \<Rightarrow> None)"

text \<open>The clock readings stored for a repository name in the course of a run, and the
  timestamps its events carried (\<open>lastUpdate\<close> of a poll result), both in order.\<close>

fun clockReadings :: "string \<Rightarrow> panel_event list \<Rightarrow> timestamp list" where
  "clockReadings r [] = []"
| "clockReadings r (RepoUpdate tRepo tHist data # es) =
     (if repository data = r then tRepo # clockReadings r es else clockReadings r es)"
| "clockReadings r (_ # es) = clockReadings r es"

fun eventTimestamps :: "string \<Rightarrow> panel_event list \<Rightarrow> timestamp list" where
  "eventTimestamps r [] = []"
| "eventTimestamps r (RepoUpdate tRepo tHist data # es) =
     (case ev_lastUpdate data of
        Some t \<Rightarrow> if repository data = r then t # eventTimestamps r es else eventTimestamps r es
      | None \<Rightarrow> eventTimestamps r es)"
| "eventTimestamps r (_ # es) = eventTimestamps r es"

section \<open>Concrete runs\<close>

text \<open>\<open>startSync()\<close> with its default argument, and with the WebSocket switched off.\<close>

definition noOptions :: sync_options where
  "noOptions = \<lparr> opt_baseApiUrl = None, opt_pollingInterval = None, opt_useWebhooks = None,
     opt_usePolling = None, opt_maxRetries = None, opt_retryDelay = None \<rparr>"

definition pollingOnly :: sync_options where
  "pollingOnly = noOptions\<lparr>opt_useWebhooks := Some False\<rparr>"

text \<open>Options no validation would let through: a negative period, retry limit and delay.\<close>

definition negativeOptions :: sync_options where
  "negativeOptions = \<lparr> opt_baseApiUrl = None, opt_pollingInterval = Some (- 1),
     opt_useWebhooks = Some True, opt_usePolling = Some True, opt_maxRetries = Some (- 3),
     opt_retryDelay = Some (- 5000) \<rparr>"

text \<open>Options that switch both channels off.\<close>

definition channelsOff :: sync_options where
  "channelsOff = noOptions\<lparr>opt_useWebhooks := Some False, opt_usePolling := Some False\<rparr>"

text \<open>A service started with the defaults whose socket has opened; then four sockets in
  a row close abnormally, each reconnection timer (handles 2, 3, 4; handle 1 is the
  polling timer) firing in between.\<close>

definition connectedService :: service where
  "connectedService = run [CallStartSync noOptions None, EvOpen] newService"

definition fourFailures :: "event list" where
  "fourFailures = [EvClose 1006, EvTimeout 2 None, EvClose 1006, EvTimeout 3 None,
     EvClose 1006, EvTimeout 4 None, EvClose 1006]"

text \<open>The service is started, its socket drops, and the service is stopped while the
  reconnection timer (handle 2; handle 1 is the polling timer) is still waiting.\<close>

definition stoppedWhileRetrying :: service where
  "stoppedWhileRetrying = run [CallStartSync noOptions None, EvClose 1006, CallStopSync] newService"

text \<open>A service whose retry limit is zero: just started, and started then stopped.\<close>

definition startedNoRetries :: service where
  "startedNoRetries = startSync (noOptions\<lparr>opt_maxRetries := Some 0\<rparr>) None newService"

definition outOfRetries :: service where
  "outOfRetries = stopSync startedNoRetries"

text \<open>Panel events: a poll result of a repository with a timestamp, a push, a failure.\<close>

definition pollOf :: "string \<Rightarrow> timestamp \<Rightarrow> repo_update" where
  "pollOf r t = pollUpdate \<lparr> st_name = r, st_hasChanges = True, st_lastUpdate = Some t,
     st_changes = None \<rparr>"

definition pushOf :: "string \<Rightarrow> repo_update" where
  "pushOf r = \<lparr> repository = r, source = Webhook, branch = Some ''main'', commits = Some [],
     pullRequest = None, action = None, ev_lastUpdate = None, ev_changes = None \<rparr>"

definition olderPollLast :: "panel_event list" where
  "olderPollLast = [RepoUpdate 1000 1000 (pollOf ''org/repo'' 200),
     RepoUpdate 1001 1001 (pushOf ''org/repo''),
     RepoUpdate 1002 1002 (pollOf ''org/repo'' 100)]"

definition pollingFailed :: error_data where
  "pollingFailed = \<lparr> error = ''Repository polling failed'', details = None, fallback = None \<rparr>"

definition failureAt :: "timestamp \<Rightarrow> panel_event" where
  "failureAt t = SyncFailure t pollingFailed"

definition fullPanel :: panel where
  "fullPanel = handleAll (map failureAt [1, 2, 3, 4, 5, 6, 7, 8, 9, 10, 11, 12, 13, 14, 15, 16,
     17, 18, 19, 20]) newPanel"

definition twoAddedOneModified :: "changes option" where
  "twoAddedOneModified = Some \<lparr> added = 2, modified = 1, deleted = 0 \<rparr>"

section \<open>Properties of the panel\<close>

subsection \<open>The history\<close>

lemma history_handle:
  "length (syncHistory p) \<le> 20 \<Longrightarrow>
   syncHistory (handle e p) = take 20 (entryOf e @ syncHistory p)"
  by (cases e)
     (simp_all add: handleRepoUpdate_def handleSyncError_def handleConnectionStatus_def Let_def)

lemma history_handleAll:
  "length (syncHistory p) \<le> 20 \<Longrightarrow>
   syncHistory (handleAll es p) = take 20 (rev (concat (map entryOf es)) @ syncHistory p)"
proof (induction es arbitrary: p)
  case Nil
  then show ?case by simp
next
  case (Cons e es)
  have len: "length (syncHistory (handle e p)) \<le> 20"
    using Cons.prems by (simp add: history_handle)
  have single: "rev (entryOf e) = entryOf e"
    by (cases e) simp_all
  have "syncHistory (handleAll (e # es) p)
      = take 20 (rev (concat (map entryOf es)) @ take 20 (entryOf e @ syncHistory p))"
    using Cons.IH [OF len] Cons.prems by (simp add: history_handle)
  also have "\<dots> = take 20 (rev (concat (map entryOf es)) @ entryOf e @ syncHistory p)"
    by (simp add: take_add min_def)
  finally show ?case by (simp add: single)
qed

lemma history_at_capacity:
  assumes "entryOf e \<noteq> []" and "length (syncHistory p) = 20"
  shows "syncHistory (handle e p) = entryOf e @ butlast (syncHistory p)"
proof -
  have "take 19 (syncHistory p) = butlast (syncHistory p)"
    using assms(2) by (simp add: butlast_conv_take)
  then show ?thesis
    using assms(1) by (cases e) (simp_all add: handleRepoUpdate_def handleSyncError_def)
qed

text \<open>
  Claim C7. Whatever events the panel handles from its initial state, the history holds
  at most 20 entries, and they are the 20 most recent ones, newest first. When an entry
  is recorded into a history of 20, the entry dropped is the last of the list, the
  oldest, and the history still holds 20.
\<close>

theorem history_ring_bounded_fifo:
  "length (syncHistory (handleAll es newPanel)) \<le> 20 \<and>
   syncHistory (handleAll es newPanel) = take 20 (rev (concat (map entryOf es))) \<and>
   (entryOf e \<noteq> [] \<and> length (syncHistory p) = 20 \<longrightarrow>
      syncHistory (handle e p) = entryOf e @ butlast (syncHistory p) \<and>
      length (syncHistory (handle e p)) = 20)"
proof -
  have start: "length (syncHistory newPanel) \<le> 20"
    by (simp add: newPanel_def)
  have closed: "syncHistory (handleAll es newPanel) = take 20 (rev (concat (map entryOf es)))"
    using history_handleAll [OF start, of es] by (simp add: newPanel_def)
  have step: "entryOf e \<noteq> [] \<and> length (syncHistory p) = 20 \<longrightarrow>
      syncHistory (handle e p) = entryOf e @ butlast (syncHistory p) \<and>
      length (syncHistory (handle e p)) = 20"
    using history_at_capacity [of e p] by (cases "entryOf e") (cases e; simp)+
  have bound: "length (syncHistory (handleAll es newPanel)) \<le> 20"
    by (simp add: closed)
  show ?thesis
    using bound closed step by blast
qed

theorem history_ring_bounded_fifo_witness:
  "entryOf (failureAt 21) \<noteq> [] \<and> length (syncHistory fullPanel) = 20 \<and>
   syncHistory (handle (failureAt 21) fullPanel)
     = entryOf (failureAt 21) @ butlast (syncHistory fullPanel) \<and>
   last (syncHistory fullPanel) = ErrorEntry 1 pollingFailed \<and>
   last (syncHistory (handle (failureAt 21) fullPanel)) = ErrorEntry 2 pollingFailed"
proof -
  have e: "entryOf (failureAt 21) \<noteq> []"
    by (simp add: failureAt_def)
  have l: "length (syncHistory fullPanel) = 20"
    by (simp add: fullPanel_def failureAt_def handleSyncError_def)
  show ?thesis
    using e l history_ring_bounded_fifo [of "[]" "failureAt 21" fullPanel]
    by (simp add: fullPanel_def failureAt_def handleSyncError_def)
qed

subsection \<open>The stored time of the last update\<close>

lemma updateRepositories_Nil:
  "updateRepositories t d [] =
     [\<lparr> name = repository d, lastUpdate = Some t, hasChanges = True, lastEvent = Some d \<rparr>]"
  by (simp add: updateRepositories_def)

lemma updateRepositories_Cons:
  "updateRepositories t d (x # xs) =
     (if name x = repository d
      then x\<lparr>lastUpdate := Some t, hasChanges := True, lastEvent := Some d\<rparr> # xs
      else x # updateRepositories t d xs)"
  by (simp add: updateRepositories_def split: option.splits)

lemma repoNamed_update_same:
  "repoNamed (repository d) (updateRepositories t d xs) =
     Some ((case repoNamed (repository d) xs of
              Some x \<Rightarrow> x
            | None \<Rightarrow> \<lparr> name = repository d, lastUpdate = None, hasChanges = False,
                        lastEvent = None \<rparr>)
           \<lparr>lastUpdate := Some t, hasChanges := True, lastEvent := Some d\<rparr>)"
  by (induction xs) (simp_all add: updateRepositories_Nil updateRepositories_Cons repoNamed_def)

lemma repoNamed_update_other:
  "r \<noteq> repository d \<Longrightarrow> repoNamed r (updateRepositories t d xs) = repoNamed r xs"
  by (induction xs) (simp_all add: updateRepositories_Nil updateRepositories_Cons repoNamed_def)

lemma stored_handle:
  "storedLastUpdate r (handle e p) =
     (case e of
        RepoUpdate tRepo tHist data \<Rightarrow>
          if repository data = r then Some tRepo else storedLastUpdate r p
      | _ \<Rightarrow> storedLastUpdate r p)"
  by (cases e)
     (auto simp: storedLastUpdate_def handleRepoUpdate_def handleSyncError_def
        handleConnectionStatus_def Let_def repoNamed_update_same repoNamed_update_other)

lemma stored_handleAll:
  "storedLastUpdate r (handleAll es p) =
     (if clockReadings r es = [] then storedLastUpdate r p
      else Some (last (clockReadings r es)))"
proof (induction es arbitrary: p)
  case Nil
  then show ?case by simp
next
  case (Cons e es)
  show ?case
    using stored_handle [of r e p] by (cases e) (simp_all add: Cons.IH)
qed

lemma last_sorted_Max:
  fixes xs :: "int list"
  assumes "sorted xs" and "xs \<noteq> []"
  shows "last xs = Max (set xs)"
proof -
  have "\<forall>x\<in>set xs. x \<le> last xs"
    using assms by (induction xs) auto
  then show ?thesis
    using assms(2) by (intro Max_eqI [symmetric]) simp_all
qed

text \<open>
  Claim C1, as the code has it. After the panel has handled events of which at least one
  updates repository \<open>r\<close>, the \<open>lastUpdate\<close> stored for \<open>r\<close> is the clock reading taken
  while the last of them was handled; no timestamp carried by an event enters it. If
  those clock readings never decrease, the stored value is their maximum.
\<close>

theorem lastUpdate_is_last_clock_reading:
  assumes "clockReadings r es \<noteq> []"
  shows "storedLastUpdate r (handleAll es p) = Some (last (clockReadings r es)) \<and>
         (sorted (clockReadings r es) \<longrightarrow>
            storedLastUpdate r (handleAll es p) = Some (Max (set (clockReadings r es))))"
  using assms by (simp add: stored_handleAll last_sorted_Max)

theorem lastUpdate_is_last_clock_reading_witness:
  "clockReadings ''org/repo'' olderPollLast \<noteq> [] \<and>
   sorted (clockReadings ''org/repo'' olderPollLast) \<and>
   storedLastUpdate ''org/repo'' (handleAll olderPollLast newPanel) = Some 1002"
proof -
  have c: "clockReadings ''org/repo'' olderPollLast = [1000, 1001, 1002]"
    by (simp add: olderPollLast_def pollOf_def pushOf_def pollUpdate_def)
  have n: "clockReadings ''org/repo'' olderPollLast \<noteq> []"
    by (simp add: c)
  show ?thesis
    using lastUpdate_is_last_clock_reading [OF n, of newPanel] by (simp add: c)
qed

text \<open>
  The claim as the specification words it fails: a poll result stamped 200, a push and
  an older poll result stamped 100 reach the panel at clock readings 1000, 1001 and 1002.
  The stored value ends at 1002, not at 200, the greatest timestamp the events carried.
\<close>

theorem lastUpdate_not_max_event_timestamp_counterexample:
  "eventTimestamps ''org/repo'' olderPollLast = [200, 100] \<and>
   storedLastUpdate ''org/repo'' (handleAll olderPollLast newPanel) = Some 1002 \<and>
   storedLastUpdate ''org/repo'' (handleAll olderPollLast newPanel)
     \<noteq> Some (Max (set (eventTimestamps ''org/repo'' olderPollLast)))"
  by (simp add: olderPollLast_def pollOf_def pushOf_def pollUpdate_def newPanel_def
        handleRepoUpdate_def updateRepositories_def storedLastUpdate_def repoNamed_def)

section \<open>Properties of the service\<close>

subsection \<open>What a step leaves alone\<close>

lemma notifyChanged_fields:
  "config (notifyChanged rs s) = config s \<and> retryCount (notifyChanged rs s) = retryCount s
   \<and> timeouts (notifyChanged rs s) = timeouts s \<and> intervals (notifyChanged rs s) = intervals s
   \<and> pollingTimeout (notifyChanged rs s) = pollingTimeout s
   \<and> isConnected (notifyChanged rs s) = isConnected s
   \<and> listeners (notifyChanged rs s) = listeners s
   \<and> getRequests (notifyChanged rs s) = getRequests s"
  by (induction rs arbitrary: s) (simp_all add: notifyListeners_def)

lemma onclose_retry:
  "code \<noteq> 1000 \<Longrightarrow> retryCount s < maxRetries (config s) \<Longrightarrow>
     retryCount (onclose code s) = retryCount s + 1 \<and>
     timeouts (onclose code s) =
       timeouts s @ [(nextHandle s, (retryCount s + 1) * retryDelay (config s))] \<and>
     config (onclose code s) = config s"
  by (simp add: onclose_def notifyListeners_def Let_def)

lemma onclose_exhausted:
  "code \<noteq> 1000 \<Longrightarrow> \<not> retryCount s < maxRetries (config s) \<Longrightarrow>
     retryCount (onclose code s) = retryCount s \<and> timeouts (onclose code s) = timeouts s \<and>
     config (onclose code s) = config s"
  by (simp add: onclose_def notifyListeners_def startPolling_def stopPolling_def
        pollRepositories_def Let_def split: option.splits)

text \<open>A close with the intentional code schedules no reconnection.\<close>

lemma onclose_intentional:
  "retryCount (onclose 1000 s) = retryCount s \<and> timeouts (onclose 1000 s) = timeouts s \<and>
     config (onclose 1000 s) = config s"
  by (simp add: onclose_def notifyListeners_def Let_def)

lemma step_keeps:
  "keepsRetrying e \<Longrightarrow> \<not> isFailure e \<Longrightarrow>
     retryCount (step e s) = retryCount s \<and> timeouts (step e s) = timeouts s \<and>
     config (step e s) = config s"
proof (cases e)
  case (EvClose code)
  assume "\<not> isFailure e"
  with EvClose show ?thesis using onclose_intentional by simp
next
  case (EvMessage m)
  then show ?thesis by (cases m) (simp_all add: notifyListeners_def)
next
  case (EvPollSettled res)
  then show ?thesis
    by (cases res)
       (simp_all add: pollRepositoriesResume_def notifyListeners_def Let_def notifyChanged_fields
          split: option.splits)
next
  case (EvTimeout h thrown)
  then show ?thesis
    by (simp add: timeoutFires_def connectWebSocket_def disconnectWebSocket_def
          notifyListeners_def startPolling_def stopPolling_def pollRepositories_def Let_def
          split: option.splits)
next
  case (EvSyncSettled r res)
  then show ?thesis
    by (cases res) (simp_all add: syncRepositoryResume_def notifyListeners_def)
next
  case (CallAddListener ev cb)
  then show ?thesis
    by (simp add: addEventListener_def split: property.splits)
next
  case (CallRemoveListener ev cb)
  then show ?thesis
    by (simp add: removeEventListener_def split: property.splits)
next
  case CallStopSync
  then show ?thesis
    by (simp add: stopSync_def stopPolling_def disconnectWebSocket_def notifyListeners_def
          split: option.splits)
qed (simp_all add: onerror_def intervalTicks_def pollRepositories_def notifyListeners_def)

subsection \<open>Reconnection\<close>

lemma run_backoff:
  "\<forall>e\<in>set es. keepsRetrying e \<Longrightarrow>
   config (run es s) = config s \<and>
   map snd (timeouts (run es s)) =
     map snd (timeouts s) @
     map (\<lambda>n. n * retryDelay (config s))
       [retryCount s + 1 .. min (retryCount s + int (length (filter isFailure es)))
                                (maxRetries (config s))]"
proof (induction es arbitrary: s)
  case Nil
  then show ?case by simp
next
  case (Cons e es)
  let ?k = "int (length (filter isFailure es))"
  have keep: "keepsRetrying e" and rest: "\<forall>e\<in>set es. keepsRetrying e"
    using Cons.prems by simp_all
  note IH = Cons.IH [OF rest, of "step e s"]
  show ?case
  proof (cases "isFailure e")
    case False
    then show ?thesis using IH step_keeps [OF keep False, of s] by simp
  next
    case True
    then obtain code where e: "e = EvClose code" and code: "code \<noteq> 1000"
      by (cases e) simp_all
    show ?thesis
    proof (cases "retryCount s < maxRetries (config s)")
      case True
      have le: "retryCount s + 1 \<le> min (retryCount s + (1 + ?k)) (maxRetries (config s))"
        using True by simp
      have "[retryCount s + 1 .. min (retryCount s + (1 + ?k)) (maxRetries (config s))]
          = (retryCount s + 1)
            # [retryCount s + 1 + 1 .. min (retryCount s + 1 + ?k) (maxRetries (config s))]"
        using upto_rec1 [OF le] by (simp add: add.assoc)
      then show ?thesis
        using IH onclose_retry [OF code True] e code by simp
    next
      case False
      then show ?thesis
        using IH onclose_exhausted [OF code False] e code by simp
    qed
  qed
qed

text \<open>
  Claim C6. Take a service whose retry counter is zero (as after every successful open)
  and whose configuration is in the range where the code's arithmetic is exact:
  \<open>retryDelay\<close> is not negative, and \<open>maxRetries\<close> and \<open>maxRetries \<times> retryDelay\<close> are below
  \<open>2^53\<close>. Let anything happen to it except another successful open or a restart. The
  delays of the reconnections it schedules are then \<open>1 \<times> retryDelay\<close>, \<open>2 \<times> retryDelay\<close>,
  ..., one for each abnormal close, the \<open>n\<close>-th being \<open>n \<times> retryDelay\<close> with no cap on the
  delay; the last one is number \<open>maxRetries\<close>, and further closes schedule nothing. Each
  of these delays is an integer below \<open>2^53\<close>, so the product of doubles that the code
  computes is that integer.
\<close>

theorem reconnect_backoff_linear:
  assumes "\<forall>e\<in>set es. keepsRetrying e" and "retryCount s = 0"
    and "0 \<le> retryDelay (config s)" and "maxRetries (config s) < 2 ^ 53"
    and "maxRetries (config s) * retryDelay (config s) < 2 ^ 53"
  shows "map snd (timeouts (run es s)) =
           map snd (timeouts s) @
           map (\<lambda>n. n * retryDelay (config s))
             [1 .. min (int (length (filter isFailure es))) (maxRetries (config s))] \<and>
         list_all (\<lambda>d. 0 \<le> d \<and> d < 2 ^ 53)
           (map (\<lambda>n. n * retryDelay (config s))
              [1 .. min (int (length (filter isFailure es))) (maxRetries (config s))])"
proof -
  have schedule: "map snd (timeouts (run es s)) =
           map snd (timeouts s) @
           map (\<lambda>n. n * retryDelay (config s))
             [1 .. min (int (length (filter isFailure es))) (maxRetries (config s))]"
    using run_backoff [OF assms(1), of s] assms(2) by simp
  have exact: "0 \<le> n * retryDelay (config s) \<and> n * retryDelay (config s) < 2 ^ 53"
    if n: "1 \<le> n" "n \<le> maxRetries (config s)" for n
  proof -
    have "n * retryDelay (config s) \<le> maxRetries (config s) * retryDelay (config s)"
      using n(2) assms(3) by (rule mult_right_mono)
    moreover have "0 \<le> n * retryDelay (config s)"
      using n(1) assms(3) by simp
    ultimately show ?thesis
      using assms(5) by simp
  qed
  have "list_all (\<lambda>d. 0 \<le> d \<and> d < 2 ^ 53)
           (map (\<lambda>n. n * retryDelay (config s))
              [1 .. min (int (length (filter isFailure es))) (maxRetries (config s))])"
    unfolding list_all_iff using exact by auto
  with schedule show ?thesis by blast
qed

theorem reconnect_backoff_linear_witness:
  "list_all keepsRetrying fourFailures \<and> retryCount connectedService = 0 \<and>
   0 \<le> retryDelay (config connectedService) \<and>
   maxRetries (config connectedService) < 2 ^ 53 \<and>
   maxRetries (config connectedService) * retryDelay (config connectedService) < 2 ^ 53 \<and>
   length (filter isFailure fourFailures) = 4 \<and>
   timeouts connectedService = [] \<and>
   map snd (timeouts (run fourFailures connectedService)) = [5000, 10000, 15000]"
proof -
  have k: "\<forall>e\<in>set fourFailures. keepsRetrying e"
    by (simp add: fourFailures_def)
  have a: "list_all keepsRetrying fourFailures"
    by (simp add: fourFailures_def)
  have c: "retryCount connectedService = 0 \<and> timeouts connectedService = [] \<and>
      config connectedService = defaultConfig"
    by (simp add: connectedService_def startSync_def noOptions_def mergeConfig_def
          newService_def defaultConfig_def notifyListeners_def connectWebSocket_def
          startPolling_def stopPolling_def pollRepositories_def onopen_def Let_def)
  have r: "retryCount connectedService = 0"
    by (simp add: c)
  have d: "0 \<le> retryDelay (config connectedService)"
    by (simp add: c defaultConfig_def)
  have m: "maxRetries (config connectedService) < 2 ^ 53"
    by (simp add: c defaultConfig_def)
  have p: "maxRetries (config connectedService) * retryDelay (config connectedService) < 2 ^ 53"
    by (simp add: c defaultConfig_def)
  have u: "[1 .. (3::int)] = [1, 2, 3]"
    by (simp add: upto_rec1)
  have f: "length (filter isFailure fourFailures) = 4"
    by (simp add: fourFailures_def)
  show ?thesis
    using a r d m p f reconnect_backoff_linear [OF k r d m p]
    by (simp add: c defaultConfig_def u)
qed

subsection \<open>Falling back to polling\<close>

lemma pollingActive_startPolling: "pollingActive (startPolling s)"
  by (simp add: pollingActive_def startPolling_def stopPolling_def pollRepositories_def Let_def
        split: option.splits)

lemma timerRegistered_step: "timerRegistered s \<Longrightarrow> timerRegistered (step e s)"
proof (cases e)
  case (EvClose code)
  assume "timerRegistered s"
  then show ?thesis
    unfolding EvClose timerRegistered_def
    by (auto simp: onclose_def Let_def notifyListeners_def pollingActive_def
          pollingActive_startPolling [unfolded pollingActive_def])
next
  case (EvMessage m)
  assume "timerRegistered s"
  then show ?thesis unfolding EvMessage
    by (cases m) (simp_all add: timerRegistered_def pollingActive_def notifyListeners_def)
next
  case (EvPollSettled res)
  assume "timerRegistered s"
  then show ?thesis unfolding EvPollSettled
    by (cases res)
       (simp_all add: timerRegistered_def pollingActive_def pollRepositoriesResume_def
          notifyListeners_def Let_def notifyChanged_fields split: option.splits)
next
  case (EvTimeout h thrown)
  assume "timerRegistered s"
  then show ?thesis unfolding EvTimeout timerRegistered_def
    by (auto simp: timeoutFires_def connectWebSocket_def disconnectWebSocket_def
          notifyListeners_def Let_def pollingActive_def
          pollingActive_startPolling [unfolded pollingActive_def]
          split: option.splits)
next
  case (EvSyncSettled r res)
  assume "timerRegistered s"
  then show ?thesis unfolding EvSyncSettled
    by (cases res)
       (simp_all add: timerRegistered_def pollingActive_def syncRepositoryResume_def
          notifyListeners_def)
next
  case (CallStartSync opts thrown)
  assume "timerRegistered s"
  then show ?thesis unfolding CallStartSync timerRegistered_def
    by (auto simp: startSync_def connectWebSocket_def disconnectWebSocket_def
          notifyListeners_def Let_def pollingActive_def
          pollingActive_startPolling [unfolded pollingActive_def]
          split: option.splits)
next
  case CallStopSync
  then show ?thesis
    by (simp add: timerRegistered_def stopSync_def stopPolling_def notifyListeners_def
          split: option.splits)
next
  case (CallAddListener ev cb)
  assume "timerRegistered s"
  then show ?thesis unfolding CallAddListener
    by (simp add: timerRegistered_def pollingActive_def addEventListener_def
          split: property.splits)
next
  case (CallRemoveListener ev cb)
  assume "timerRegistered s"
  then show ?thesis unfolding CallRemoveListener
    by (simp add: timerRegistered_def pollingActive_def removeEventListener_def
          split: property.splits)
qed (simp_all add: timerRegistered_def pollingActive_def onopen_def onerror_def
       intervalTicks_def pollRepositories_def notifyListeners_def)

text \<open>In every state the service can reach, the timer it holds is running.\<close>

lemma timerRegistered_run: "timerRegistered s \<Longrightarrow> timerRegistered (run es s)"
  by (induction es arbitrary: s) (simp_all add: timerRegistered_step)

lemma timerRegistered_reachable: "timerRegistered (run es newService)"
  by (rule timerRegistered_run) (simp add: timerRegistered_def newService_def)

text \<open>
  Claim C3. A socket closes abnormally when no retry is left
  (\<open>retryCount \<ge> maxRetries\<close>) and \<open>usePolling\<close> is set. Afterwards the polling timer is
  running: if the service held none, the handler has issued a poll and started a timer
  with the configured period; if it held one, that one is kept. No reconnection is
  scheduled.
\<close>

theorem exhausted_falls_back_to_polling:
  assumes "code \<noteq> 1000" and "\<not> retryCount s < maxRetries (config s)"
    and "usePolling (config s)" and "timerRegistered s"
  shows "pollingActive (onclose code s) \<and>
         timeouts (onclose code s) = timeouts s \<and>
         (pollingTimeout s = None \<longrightarrow>
            pollingTimeout (onclose code s) = Some (nextHandle s) \<and>
            intervals (onclose code s)
              = intervals s @ [(nextHandle s, pollingInterval (config s))] \<and>
            getRequests (onclose code s) = Suc (getRequests s)) \<and>
         (pollingTimeout s \<noteq> None \<longrightarrow>
            pollingTimeout (onclose code s) = pollingTimeout s \<and>
            intervals (onclose code s) = intervals s \<and>
            getRequests (onclose code s) = getRequests s)"
proof (cases "pollingTimeout s")
  case None
  then show ?thesis using assms(1-3)
    by (simp add: onclose_def notifyListeners_def startPolling_def stopPolling_def
          pollRepositories_def pollingActive_def Let_def)
next
  case (Some h)
  then show ?thesis using assms
    by (simp add: onclose_def notifyListeners_def timerRegistered_def pollingActive_def Let_def)
qed

theorem exhausted_falls_back_to_polling_witness:
  "(1006::int) \<noteq> 1000 \<and>
   \<not> retryCount outOfRetries < maxRetries (config outOfRetries) \<and>
   usePolling (config outOfRetries) \<and> timerRegistered outOfRetries \<and>
   pollingTimeout outOfRetries = None \<and>
   pollingActive (onclose 1006 outOfRetries) \<and>
   pollingTimeout (onclose 1006 outOfRetries) = Some 2 \<and>
   intervals (onclose 1006 outOfRetries) = [(2, 60000)] \<and>
   getRequests (onclose 1006 outOfRetries) = 2 \<and>
   \<not> retryCount startedNoRetries < maxRetries (config startedNoRetries) \<and>
   usePolling (config startedNoRetries) \<and> timerRegistered startedNoRetries \<and>
   pollingTimeout startedNoRetries = Some 1 \<and>
   pollingActive (onclose 1006 startedNoRetries) \<and>
   pollingTimeout (onclose 1006 startedNoRetries) = Some 1 \<and>
   intervals (onclose 1006 startedNoRetries) = [(1, 60000)] \<and>
   getRequests (onclose 1006 startedNoRetries) = 1"
proof -
  have c: "(1006::int) \<noteq> 1000"
    by simp
  have g: "config startedNoRetries = defaultConfig\<lparr>maxRetries := 0\<rparr>
      \<and> retryCount startedNoRetries = 0 \<and> pollingTimeout startedNoRetries = Some 1
      \<and> intervals startedNoRetries = [(1, 60000)] \<and> getRequests startedNoRetries = 1
      \<and> nextHandle startedNoRetries = 2"
    by (simp add: startedNoRetries_def startSync_def noOptions_def mergeConfig_def
          newService_def defaultConfig_def notifyListeners_def connectWebSocket_def
          startPolling_def stopPolling_def pollRepositories_def Let_def)
  have f: "config outOfRetries = defaultConfig\<lparr>maxRetries := 0\<rparr>
      \<and> retryCount outOfRetries = 0 \<and> pollingTimeout outOfRetries = None
      \<and> intervals outOfRetries = [] \<and> getRequests outOfRetries = 1
      \<and> nextHandle outOfRetries = 2"
    using g
    by (simp add: outOfRetries_def stopSync_def stopPolling_def disconnectWebSocket_def
          notifyListeners_def split: option.splits)
  have r: "\<not> retryCount outOfRetries < maxRetries (config outOfRetries)"
    by (simp add: f)
  have p: "usePolling (config outOfRetries)"
    by (simp add: f defaultConfig_def)
  have t: "timerRegistered outOfRetries"
    by (simp add: timerRegistered_def f)
  have r': "\<not> retryCount startedNoRetries < maxRetries (config startedNoRetries)"
    by (simp add: g)
  have p': "usePolling (config startedNoRetries)"
    by (simp add: g defaultConfig_def)
  have t': "timerRegistered startedNoRetries"
    by (simp add: timerRegistered_def pollingActive_def g)
  show ?thesis
    using c r p t r' p' t' exhausted_falls_back_to_polling [OF c r p t]
      exhausted_falls_back_to_polling [OF c r' p' t']
    by (simp add: f g defaultConfig_def)
qed

subsection \<open>Stopping\<close>

text \<open>
  Claim C2 does not hold of the code. \<open>stopSync\<close> closes the socket with code 1000, and a
  close with that code schedules nothing (\<open>onclose_intentional\<close>); but a reconnection
  timer already waiting is not cancelled, since no handle of it is kept. In the run
  below the service is stopped while such a timer waits: the timer is still pending
  after \<open>stopSync\<close>, and when it fires a second WebSocket is opened, whose \<open>onopen\<close>
  reports the stopped service as connected.
\<close>

theorem reconnect_fires_after_stopSync:
  "socket stoppedWhileRetrying = None \<and> pollingTimeout stoppedWhileRetrying = None \<and>
   sockets stoppedWhileRetrying = [0] \<and> timeouts stoppedWhileRetrying = [(2, 5000)] \<and>
   pending stoppedWhileRetrying 2 \<and>
   sockets (step (EvTimeout 2 None) stoppedWhileRetrying) = [0, 1] \<and>
   socket (step (EvTimeout 2 None) stoppedWhileRetrying) = Some 1 \<and>
   isConnected (run [EvTimeout 2 None, EvOpen] stoppedWhileRetrying) \<and>
   map fst (notified (run [EvTimeout 2 None, EvOpen] stoppedWhileRetrying)) =
     [connectionStatus Connecting None, connectionStatus Disconnected None,
      connectionStatus Disconnected None, connectionStatus Connected (Some Webhook)]"
  by (simp add: stoppedWhileRetrying_def startSync_def stopSync_def noOptions_def
        mergeConfig_def newService_def defaultConfig_def notifyListeners_def
        connectWebSocket_def disconnectWebSocket_def startPolling_def stopPolling_def
        pollRepositories_def onclose_def onopen_def timeoutFires_def pending_def Let_def)

subsection \<open>Polling\<close>

text \<open>
  Claim C8, as the code has it. When a poll succeeds the service is connected
  afterwards, and \<open>connection-status\<close> with status \<open>connected\<close> is notified only if it
  was not connected before. When a poll fails, \<open>sync-error\<close> is notified and the service
  is not connected afterwards; \<open>connection-status\<close> with status \<open>error\<close> is notified only
  if the service was connected before. In both cases the polling timer is untouched,
  and its next tick issues a status request.
\<close>

theorem poll_outcome_keeps_schedule:
  "isConnected (pollRepositoriesResume (GetOk body) s) \<and>
   notified (pollRepositoriesResume (GetOk body) s) =
     notified (case body of Some repos \<Rightarrow> notifyChanged repos s | None \<Rightarrow> s)
     @ (if isConnected s then []
        else [(connectionStatus Connected (Some Polling), connection_status (listeners s))]) \<and>
   \<not> isConnected (pollRepositoriesResume (GetFailed msg) s) \<and>
   notified (pollRepositoriesResume (GetFailed msg) s) =
     notified s
     @ (syncError ''Repository polling failed'' (Some msg) None, sync_error (listeners s))
     # (if isConnected s
        then [(connectionStatus Error None, connection_status (listeners s))] else []) \<and>
   pollingTimeout (pollRepositoriesResume res s) = pollingTimeout s \<and>
   intervals (pollRepositoriesResume res s) = intervals s \<and>
   (h \<in> fst ` set (intervals s) \<longrightarrow>
      getRequests (intervalTicks h (pollRepositoriesResume res s))
        = Suc (getRequests (pollRepositoriesResume res s)))"
proof -
  have ok: "isConnected (pollRepositoriesResume (GetOk body) s)"
    by (simp add: pollRepositoriesResume_def notifyListeners_def Let_def)
  have oklog: "notified (pollRepositoriesResume (GetOk body) s) =
     notified (case body of Some repos \<Rightarrow> notifyChanged repos s | None \<Rightarrow> s)
     @ (if isConnected s then []
        else [(connectionStatus Connected (Some Polling), connection_status (listeners s))])"
    by (cases body)
       (simp_all add: pollRepositoriesResume_def notifyListeners_def Let_def
          notifyChanged_fields connectionStatus_def)
  have failed: "\<not> isConnected (pollRepositoriesResume (GetFailed msg) s)"
    by (simp add: pollRepositoriesResume_def notifyListeners_def Let_def)
  have log: "notified (pollRepositoriesResume (GetFailed msg) s) =
     notified s
     @ (syncError ''Repository polling failed'' (Some msg) None, sync_error (listeners s))
     # (if isConnected s
        then [(connectionStatus Error None, connection_status (listeners s))] else [])"
    by (simp add: pollRepositoriesResume_def notifyListeners_def Let_def syncError_def
          connectionStatus_def)
  have timer: "pollingTimeout (pollRepositoriesResume res s) = pollingTimeout s
      \<and> intervals (pollRepositoriesResume res s) = intervals s"
    by (cases res)
       (simp_all add: pollRepositoriesResume_def notifyListeners_def Let_def
          notifyChanged_fields split: option.splits)
  have tick: "h \<in> fst ` set (intervals s) \<longrightarrow>
      getRequests (intervalTicks h (pollRepositoriesResume res s))
        = Suc (getRequests (pollRepositoriesResume res s))"
    using timer by (simp add: intervalTicks_def pollRepositories_def)
  show ?thesis
    using ok oklog failed log timer tick by blast
qed

theorem poll_outcome_keeps_schedule_witness:
  "1 \<in> fst ` set (intervals (startSync pollingOnly None newService)) \<and>
   \<not> isConnected (startSync pollingOnly None newService) \<and>
   getRequests (intervalTicks 1
     (pollRepositoriesResume (GetFailed ''Network Error'')
        (startSync pollingOnly None newService))) = 2 \<and>
   isConnected (pollRepositoriesResume (GetOk None) (startSync pollingOnly None newService))"
proof -
  have f: "intervals (startSync pollingOnly None newService) = [(1, 60000)]
      \<and> getRequests (startSync pollingOnly None newService) = 1
      \<and> \<not> isConnected (startSync pollingOnly None newService)"
    by (simp add: startSync_def pollingOnly_def noOptions_def mergeConfig_def newService_def
          defaultConfig_def notifyListeners_def startPolling_def stopPolling_def
          pollRepositories_def Let_def)
  have h: "1 \<in> fst ` set (intervals (startSync pollingOnly None newService))"
    by (simp add: f)
  have g: "getRequests (pollRepositoriesResume (GetFailed ''Network Error'')
             (startSync pollingOnly None newService)) = 1"
    by (simp add: pollRepositoriesResume_def notifyListeners_def Let_def f)
  show ?thesis
    using h f g
      poll_outcome_keeps_schedule [of None "startSync pollingOnly None newService"
        "''Network Error''" "GetFailed ''Network Error''" 1]
    by simp
qed

text \<open>
  The claim as the specification words it fails: a service started with polling only
  is not connected when its first poll fails, so the failure notifies \<open>sync-error\<close> and
  no \<open>connection-status\<close>; the last status its listeners were given is \<open>connecting\<close>.
\<close>

theorem failed_poll_reports_no_status_counterexample:
  "\<not> isConnected (startSync pollingOnly None newService) \<and>
   map fst (notified (pollRepositoriesResume (GetFailed ''Network Error'')
              (startSync pollingOnly None newService))) =
     [connectionStatus Connecting None,
      syncError ''Repository polling failed'' (Some ''Network Error'') None] \<and>
   connectionStatus Error None \<notin>
     fst ` set (notified (pollRepositoriesResume (GetFailed ''Network Error'')
                  (startSync pollingOnly None newService)))"
  by (simp add: startSync_def pollingOnly_def noOptions_def mergeConfig_def newService_def
        defaultConfig_def notifyListeners_def startPolling_def stopPolling_def
        pollRepositories_def pollRepositoriesResume_def Let_def syncError_def
        connectionStatus_def)

subsection \<open>Starting\<close>

lemma notifyListeners_fields:
  "config (notifyListeners n s) = config s \<and> socket (notifyListeners n s) = socket s \<and>
   sockets (notifyListeners n s) = sockets s \<and>
   pollingTimeout (notifyListeners n s) = pollingTimeout s \<and>
   intervals (notifyListeners n s) = intervals s \<and>
   getRequests (notifyListeners n s) = getRequests s"
  by (simp add: notifyListeners_def)

lemma startPolling_fields:
  "config (startPolling s) = config s \<and> socket (startPolling s) = socket s \<and>
   sockets (startPolling s) = sockets s \<and>
   getRequests (startPolling s) = Suc (getRequests s) \<and>
   snd (last (intervals (startPolling s))) = pollingInterval (config s)"
  by (simp add: startPolling_def stopPolling_def pollRepositories_def Let_def
        split: option.splits)

lemma disconnectWebSocket_fields:
  "config (disconnectWebSocket s) = config s \<and> sockets (disconnectWebSocket s) = sockets s \<and>
   pollingTimeout (disconnectWebSocket s) = pollingTimeout s \<and>
   intervals (disconnectWebSocket s) = intervals s \<and>
   getRequests (disconnectWebSocket s) = getRequests s"
  by (simp add: disconnectWebSocket_def split: option.splits)

lemma connectWebSocket_opens:
  "socket (connectWebSocket None s) = Some (length (sockets s)) \<and>
   sockets (connectWebSocket None s) = sockets s @ [length (sockets s)]"
  by (simp add: connectWebSocket_def Let_def disconnectWebSocket_fields)

lemma connectWebSocket_config:
  "config (connectWebSocket thrown s) = config s \<and>
   getRequests s \<le> getRequests (connectWebSocket thrown s)"
  by (cases thrown)
     (simp_all add: connectWebSocket_def Let_def disconnectWebSocket_fields
        notifyListeners_fields startPolling_fields)

lemma connectWebSocket_no_polling:
  "\<not> usePolling (config s) \<Longrightarrow>
   pollingTimeout (connectWebSocket thrown s) = pollingTimeout s \<and>
   intervals (connectWebSocket thrown s) = intervals s \<and>
   getRequests (connectWebSocket thrown s) = getRequests s"
  by (cases thrown)
     (simp_all add: connectWebSocket_def Let_def disconnectWebSocket_fields
        notifyListeners_fields)

text \<open>
  Claim C9, as the code has it. \<open>startSync\<close> checks nothing. Whatever the options, the
  configuration becomes the old one overridden by them; the WebSocket is opened if the
  merged \<open>useWebhooks\<close> is set, and otherwise no socket is touched; polling is started if
  the merged \<open>usePolling\<close> is set, and otherwise no timer is touched.
\<close>

theorem startSync_checks_nothing:
  "config (startSync opts thrown s) = mergeConfig (config s) opts \<and>
   (useWebhooks (mergeConfig (config s) opts) \<and> thrown = None \<longrightarrow>
      socket (startSync opts thrown s) = Some (length (sockets s)) \<and>
      sockets (startSync opts thrown s) = sockets s @ [length (sockets s)]) \<and>
   (\<not> useWebhooks (mergeConfig (config s) opts) \<longrightarrow>
      socket (startSync opts thrown s) = socket s \<and>
      sockets (startSync opts thrown s) = sockets s) \<and>
   (usePolling (mergeConfig (config s) opts) \<longrightarrow>
      pollingActive (startSync opts thrown s) \<and>
      getRequests s < getRequests (startSync opts thrown s) \<and>
      snd (last (intervals (startSync opts thrown s)))
        = pollingInterval (mergeConfig (config s) opts)) \<and>
   (\<not> usePolling (mergeConfig (config s) opts) \<longrightarrow>
      pollingTimeout (startSync opts thrown s) = pollingTimeout s \<and>
      intervals (startSync opts thrown s) = intervals s \<and>
      getRequests (startSync opts thrown s) = getRequests s)"
proof -
  define s1 where "s1 = notifyListeners (connectionStatus Connecting None)
                          (s\<lparr>config := mergeConfig (config s) opts\<rparr>)"
  define s2 where "s2 = (if useWebhooks (config s1) then connectWebSocket thrown s1 else s1)"
  have start: "startSync opts thrown s = (if usePolling (config s2) then startPolling s2 else s2)"
    by (simp add: startSync_def s1_def s2_def Let_def)
  have f1: "config s1 = mergeConfig (config s) opts \<and> socket s1 = socket s \<and>
      sockets s1 = sockets s \<and> pollingTimeout s1 = pollingTimeout s \<and>
      intervals s1 = intervals s \<and> getRequests s1 = getRequests s"
    by (simp add: s1_def notifyListeners_def)
  have c2: "config s2 = mergeConfig (config s) opts \<and> getRequests s \<le> getRequests s2"
    using f1 connectWebSocket_config [of thrown s1] by (simp add: s2_def)
  have cfg: "config (startSync opts thrown s) = mergeConfig (config s) opts"
    using c2 by (simp add: start startPolling_fields)
  have ws: "useWebhooks (mergeConfig (config s) opts) \<and> thrown = None \<longrightarrow>
      socket (startSync opts thrown s) = Some (length (sockets s)) \<and>
      sockets (startSync opts thrown s) = sockets s @ [length (sockets s)]"
  proof (intro impI, elim conjE)
    assume w: "useWebhooks (mergeConfig (config s) opts)" and t: "thrown = None"
    have "s2 = connectWebSocket None s1"
      using w t f1 by (simp add: s2_def)
    then show "socket (startSync opts thrown s) = Some (length (sockets s)) \<and>
        sockets (startSync opts thrown s) = sockets s @ [length (sockets s)]"
      using f1 connectWebSocket_opens [of s1] by (simp add: start startPolling_fields)
  qed
  have nows: "\<not> useWebhooks (mergeConfig (config s) opts) \<longrightarrow>
      socket (startSync opts thrown s) = socket s \<and>
      sockets (startSync opts thrown s) = sockets s"
    using f1 by (simp add: start s2_def startPolling_fields)
  have poll: "usePolling (mergeConfig (config s) opts) \<longrightarrow>
      pollingActive (startSync opts thrown s) \<and>
      getRequests s < getRequests (startSync opts thrown s) \<and>
      snd (last (intervals (startSync opts thrown s)))
        = pollingInterval (mergeConfig (config s) opts)"
    using c2 by (simp add: start startPolling_fields pollingActive_startPolling)
  have nopoll: "\<not> usePolling (mergeConfig (config s) opts) \<longrightarrow>
      pollingTimeout (startSync opts thrown s) = pollingTimeout s \<and>
      intervals (startSync opts thrown s) = intervals s \<and>
      getRequests (startSync opts thrown s) = getRequests s"
    using c2 f1 connectWebSocket_no_polling [of s1 thrown] by (simp add: start s2_def)
  show ?thesis
    using cfg ws nows poll nopoll by blast
qed

theorem startSync_checks_nothing_witness:
  "useWebhooks (mergeConfig (config newService) negativeOptions) \<and>
   usePolling (mergeConfig (config newService) negativeOptions) \<and>
   socket (startSync negativeOptions None newService) = Some 0 \<and>
   pollingActive (startSync negativeOptions None newService) \<and>
   snd (last (intervals (startSync negativeOptions None newService))) = - 1 \<and>
   \<not> useWebhooks (mergeConfig (config newService) channelsOff) \<and>
   \<not> usePolling (mergeConfig (config newService) channelsOff) \<and>
   sockets (startSync channelsOff None newService) = [] \<and>
   intervals (startSync channelsOff None newService) = []"
proof -
  have n: "mergeConfig (config newService) negativeOptions =
      \<lparr> baseApiUrl = ''/api'', pollingInterval = - 1, useWebhooks = True, usePolling = True,
        maxRetries = - 3, retryDelay = - 5000 \<rparr>"
    by (simp add: negativeOptions_def mergeConfig_def newService_def defaultConfig_def)
  have f: "mergeConfig (config newService) channelsOff =
      \<lparr> baseApiUrl = ''/api'', pollingInterval = 60000, useWebhooks = False,
        usePolling = False, maxRetries = 3, retryDelay = 5000 \<rparr>"
    by (simp add: channelsOff_def noOptions_def mergeConfig_def newService_def
          defaultConfig_def)
  have e: "sockets newService = [] \<and> intervals newService = []"
    by (simp add: newService_def)
  show ?thesis
    using startSync_checks_nothing [of negativeOptions None newService]
      startSync_checks_nothing [of channelsOff None newService]
    by (simp add: n f e)
qed

theorem startSync_accepts_negative_options_counterexample:
  "config (startSync negativeOptions None newService) =
     \<lparr> baseApiUrl = ''/api'', pollingInterval = - 1, useWebhooks = True, usePolling = True,
       maxRetries = - 3, retryDelay = - 5000 \<rparr> \<and>
   socket (startSync negativeOptions None newService) = Some 0 \<and>
   sockets (startSync negativeOptions None newService) = [0] \<and>
   pollingTimeout (startSync negativeOptions None newService) = Some 1 \<and>
   intervals (startSync negativeOptions None newService) = [(1, - 1)] \<and>
   getRequests (startSync negativeOptions None newService) = 1"
  by (simp add: negativeOptions_def startSync_def mergeConfig_def newService_def
        defaultConfig_def notifyListeners_def connectWebSocket_def startPolling_def
        stopPolling_def pollRepositories_def Let_def)

subsection \<open>Manual sync\<close>

text \<open>
  Claim C5. When the request of a manual sync is rejected, \<open>syncRepository\<close> notifies
  \<open>sync-error\<close> to the listeners of that kind and throws the error to its caller. The
  other operations whose work can fail report the failure one way only: a failed poll
  and a failed \<open>new WebSocket\<close> notify \<open>sync-error\<close> and return normally (their models
  return a service, never an error), and a listener call that throws notifies nothing.
  A manual sync that succeeds neither throws nor notifies \<open>sync-error\<close>.
\<close>

theorem manual_sync_failure_reported_and_raised:
  "fst (syncRepositoryResume repoName (PostFailed msg) s) = Inl (RequestError msg) \<and>
   notified (snd (syncRepositoryResume repoName (PostFailed msg) s)) =
     notified s @ [(syncError (''Failed to sync repository '' @ repoName) (Some msg) None,
                    sync_error (listeners s))] \<and>
   fst (syncRepositoryResume repoName (PostOk ch) s) = Inr ch \<and>
   notified (snd (syncRepositoryResume repoName (PostOk ch) s)) =
     notified s @ [(RepoUpdated (manualUpdate repoName ch), repo_updated (listeners s))] \<and>
   (syncError ''Repository polling failed'' (Some msg) None, sync_error (listeners s))
     \<in> set (notified (pollRepositoriesResume (GetFailed msg) s)) \<and>
   (syncError ''Failed to establish WebSocket connection'' (Some msg) None,
    sync_error (listeners s))
     \<in> set (notified (connectWebSocket (Some msg) s)) \<and>
   addEventListener ''constructor'' cb s
     = Inl (TypeError ''this.listeners[event].push is not a function'')"
proof -
  have failed: "syncRepositoryResume repoName (PostFailed msg) s =
      (Inl (RequestError msg),
       notifyListeners (syncError (''Failed to sync repository '' @ repoName) (Some msg) None) s)"
    by (simp add: syncRepositoryResume_def)
  have ok: "syncRepositoryResume repoName (PostOk ch) s =
      (Inr ch, notifyListeners (RepoUpdated (manualUpdate repoName ch)) s)"
    by (simp add: syncRepositoryResume_def)
  have poll: "(syncError ''Repository polling failed'' (Some msg) None, sync_error (listeners s))
     \<in> set (notified (pollRepositoriesResume (GetFailed msg) s))"
    by (simp add: pollRepositoriesResume_def notifyListeners_def Let_def syncError_def)
  have ws: "(syncError ''Failed to establish WebSocket connection'' (Some msg) None,
      sync_error (listeners s)) \<in> set (notified (connectWebSocket (Some msg) s))"
    by (simp add: connectWebSocket_def disconnectWebSocket_def notifyListeners_def
          startPolling_def stopPolling_def pollRepositories_def Let_def syncError_def
          split: option.splits)
  have add: "addEventListener ''constructor'' cb s
     = Inl (TypeError ''this.listeners[event].push is not a function'')"
    by (simp add: addEventListener_def getListeners_def objectPrototypeKeys_def)
  show ?thesis
    using poll ws add by (simp add: failed ok notifyListeners_def syncError_def)
qed

text \<open>
  Claim C4, as the code has it. A manual sync that succeeds returns the body to its
  caller and notifies one \<open>repo-updated\<close> with source \<open>manual\<close>. When the panel handles
  it, the entry of the repository has \<open>hasChanges\<close> set, that notification as its
  \<open>lastEvent\<close> and the clock reading as its \<open>lastUpdate\<close>; and one entry with source
  \<open>manual\<close> is put in front of the history, of which the 19 newest older entries are
  kept.
\<close>

theorem manual_sync_success_recorded:
  "fst (syncRepositoryResume r (PostOk ch) s) = Inr ch \<and>
   notified (snd (syncRepositoryResume r (PostOk ch) s)) =
     notified s @ [(RepoUpdated (manualUpdate r ch), repo_updated (listeners s))] \<and>
   source (manualUpdate r ch) = Manual \<and> repository (manualUpdate r ch) = r \<and>
   map_option hasChanges
     (repoNamed r (repositories (handleRepoUpdate tRepo tHist (manualUpdate r ch) p)))
     = Some True \<and>
   map_option lastEvent
     (repoNamed r (repositories (handleRepoUpdate tRepo tHist (manualUpdate r ch) p)))
     = Some (Some (manualUpdate r ch)) \<and>
   storedLastUpdate r (handleRepoUpdate tRepo tHist (manualUpdate r ch) p) = Some tRepo \<and>
   syncHistory (handleRepoUpdate tRepo tHist (manualUpdate r ch) p) =
     UpdateEntry tHist r Manual (manualUpdate r ch) # take 19 (syncHistory p)"
proof -
  have r: "repository (manualUpdate r ch) = r" and m: "source (manualUpdate r ch) = Manual"
    by (simp_all add: manualUpdate_def)
  have entry: "repoNamed r (updateRepositories tRepo (manualUpdate r ch) (repositories p)) =
     Some ((case repoNamed r (repositories p) of
              Some x \<Rightarrow> x
            | None \<Rightarrow> \<lparr> name = r, lastUpdate = None, hasChanges = False, lastEvent = None \<rparr>)
           \<lparr>lastUpdate := Some tRepo, hasChanges := True,
             lastEvent := Some (manualUpdate r ch)\<rparr>)"
    using repoNamed_update_same [of "manualUpdate r ch" tRepo "repositories p"]
    by (simp only: r)
  show ?thesis
    by (simp add: syncRepositoryResume_def notifyListeners_def handleRepoUpdate_def
          storedLastUpdate_def entry r m)
qed

text \<open>
  The claim as the specification words it fails on one point: after the manual sync of
  \<open>org/repo\<close> that returns two added files and one modified, the entry of the repository
  has \<open>hasChanges\<close> set, not cleared.
\<close>

theorem manual_sync_sets_hasChanges_counterexample:
  "fst (syncRepositoryResume ''org/repo'' (PostOk twoAddedOneModified) newService)
     = Inr twoAddedOneModified \<and>
   map fst (notified (snd (syncRepositoryResume ''org/repo'' (PostOk twoAddedOneModified)
                             newService)))
     = [RepoUpdated (manualUpdate ''org/repo'' twoAddedOneModified)] \<and>
   map_option hasChanges
     (repoNamed ''org/repo''
        (repositories (handleRepoUpdate 1000 1000
                         (manualUpdate ''org/repo'' twoAddedOneModified) newPanel)))
     = Some True"
  by (simp add: syncRepositoryResume_def notifyListeners_def newService_def newPanel_def
        handleRepoUpdate_def updateRepositories_def repoNamed_def manualUpdate_def)

subsection \<open>The listener registry\<close>

lemma getListeners_Undefined:
  "getListeners ls event = Undefined \<longleftrightarrow>
     event \<notin> {''repo-updated'', ''sync-error'', ''connection-status''}
     \<and> event \<notin> set objectPrototypeKeys"
  by (simp add: getListeners_def)

text \<open>A kind that is neither one of the three nor inherited registers and removes
  nothing, and throws nothing.\<close>

lemma unknown_kind_ignored:
  assumes "getListeners (listeners s) event = Undefined"
  shows "addEventListener event cb s = Inr s \<and> removeEventListener event cb s = Inr s"
  using assms by (simp add: addEventListener_def removeEventListener_def)

text \<open>Removing a callback that is not registered for a kind changes nothing.\<close>

lemma setListeners_same:
  "getListeners ls event = Own cbs \<Longrightarrow> setListeners ls event cbs = ls"
  by (auto simp: getListeners_def setListeners_def split: if_splits)

lemma remove_unregistered:
  assumes "getListeners (listeners s) event = Own cbs" and "cb \<notin> set cbs"
  shows "removeEventListener event cb s = Inr s"
proof -
  have "filter (\<lambda>c. c \<noteq> cb) cbs = cbs"
    using assms(2) by (induction cbs) auto
  then show ?thesis
    using assms(1) by (simp add: removeEventListener_def setListeners_same)
qed

text \<open>
  Claim C10 does not hold of the code. The guard \<open>if (this.listeners[event])\<close> also
  lets through the names that the table inherits from \<open>Object.prototype\<close>: for the kind
  \<open>constructor\<close>, which is none of the three, both calls throw a \<open>TypeError\<close>.
\<close>

theorem listener_calls_throw_on_inherited_key:
  "''constructor'' \<notin> {''repo-updated'', ''sync-error'', ''connection-status''} \<and>
   addEventListener ''constructor'' 1 newService
     = Inl (TypeError ''this.listeners[event].push is not a function'') \<and>
   removeEventListener ''constructor'' 1 newService
     = Inl (TypeError ''this.listeners[event].filter is not a function'')"
  by (simp add: addEventListener_def removeEventListener_def getListeners_def
        objectPrototypeKeys_def)

end
